theory Spec2Isabelle
  imports Main "HOL-Library.Word"
begin

section \<open>The payment meterer of the disperser (core/meterer)\<close>

text \<open>
  A shallow embedding of the \<^verbatim>\<open>Meterer\<close> of package \<^verbatim>\<open>meterer\<close>. Go's \<^verbatim>\<open>uint8\<close>, \<^verbatim>\<open>uint32\<close> and
  \<^verbatim>\<open>uint64\<close> are words of that width, so \<open>+\<close>, \<open>-\<close> and \<open>*\<close> wrap around as in Go
  and \<open>\<le>\<close>, \<open><\<close>, \<open>max\<close> and \<open>div\<close> are the unsigned ones. A conversion
  \<^verbatim>\<open>uint32(x)\<close> or \<^verbatim>\<open>uint64(x)\<close> is \<open>ucast\<close>. Go's \<^verbatim>\<open>uint\<close> is taken to be 64 bits
  wide. An \<^verbatim>\<open>error\<close> result is the left summand of a sum; a run-time panic (integer
  division by zero) is the error \<open>Panic\<close>, which the callers hand on unwrapped. The
  off-chain store is threaded through every function that writes to it, and the reading
  of the local clock is an argument.
\<close>

subsection \<open>Data model\<close>

type_synonym u8 = "8 word"
type_synonym u32 = "32 word"
type_synonym u64 = "64 word"

text \<open>The network parameters, \<^verbatim>\<open>type Config struct\<close>.\<close>

record Config =
  GlobalBytesPerSecond :: u64
  PricePerChargeable :: u32
  MinChargeableSize :: u32
  ReservationWindow :: u32

text \<open>
  The fields of \<^verbatim>\<open>BlobHeader\<close> that the meterer reads. The struct is declared outside
  the file of the meterer; the types are those its uses there fix.
\<close>

record BlobHeader =
  AccountID :: string
  QuorumNumbers :: "u8 list"
  DataLength :: u32
  BinIndex :: u32
  CumulativePayment :: u64

text \<open>
  \<^verbatim>\<open>ActiveReservation\<close> and \<^verbatim>\<open>OnDemandPayment\<close>, read from the chain. The Go field
  \<^verbatim>\<open>reservation.QuorumNumbers\<close> is \<open>ReservationQuorumNumbers\<close> here and
  \<^verbatim>\<open>onDemandPayment.CumulativePayment\<close> is \<open>DepositCumulativePayment\<close>, since a record
  field is a constant of the theory and the header has fields of both names.
\<close>

record ActiveReservation =
  DataRate :: u64
  StartTimestamp :: u64
  EndTimestamp :: u64
  ReservationQuorumNumbers :: "u8 list"

record OnDemandPayment =
  DepositCumulativePayment :: u64

text \<open>
  Errors. \<open>Msg\<close> is \<^verbatim>\<open>fmt.Errorf\<close> of a fixed message, \<open>QuorumMismatch q\<close> is
  \<^verbatim>\<open>fmt.Errorf("quorum number mismatch: %d", q)\<close>, \<open>Wrap m e\<close> is
  \<^verbatim>\<open>fmt.Errorf(m + ": %w", e)\<close>, \<open>Conflict\<close> is the store's refusal of a second
  record under one key, and \<open>Panic\<close> is a run-time panic.
\<close>

datatype error =
    Msg string
  | QuorumMismatch u8
  | Wrap string error
  | Conflict
  | Panic string

type_synonym 'a result = "error + 'a"

text \<open>A panic unwinds through the callers; every other error is wrapped by the caller.\<close>

fun wrap :: "string \<Rightarrow> error \<Rightarrow> error" where
  "wrap m (Panic p) = Panic p"
| "wrap m e = Wrap m e"

definition accepted :: "'a result \<Rightarrow> bool" where
  "accepted r = (case r of Inl e \<Rightarrow> False | Inr v \<Rightarrow> True)"

subsection \<open>The off-chain store\<close>

text \<open>
  The three tables of the off-chain store: the reservation bins keyed by account and bin
  index, the global bins keyed by bin index, and the on-demand payment records keyed by
  account and cumulative payment, each carrying a data length. A counter that was never
  written reads 0.
\<close>

record OffchainStore =
  ReservationBins :: "string \<times> u64 \<Rightarrow> u64"
  GlobalBins :: "u64 \<Rightarrow> u64"
  OnDemand :: "((string \<times> u64) \<times> u32) list"

text \<open>Modelled from the spec: \<^verbatim>\<open>OffchainStore.UpdateReservationBin\<close>,
  which the meterer calls and does not define. The spec (4.E) gives
  \<^verbatim>\<open>increment_reservation_bin(account, bin_index, delta) -> new_usage\<close>, an atomic
  increment of a \<^verbatim>\<open>u64\<close> counter that returns the value after the increment.\<close>

definition UpdateReservationBin ::
  "OffchainStore \<Rightarrow> string \<Rightarrow> u64 \<Rightarrow> u64 \<Rightarrow> u64 result \<times> OffchainStore" where
  "UpdateReservationBin st account binIndex delta =
     (let newUsage = ReservationBins st (account, binIndex) + delta
      in (Inr newUsage,
          st\<lparr>ReservationBins := (ReservationBins st)((account, binIndex) := newUsage)\<rparr>))"

text \<open>Modelled from the spec: \<^verbatim>\<open>OffchainStore.UpdateGlobalBin\<close>,
  which the meterer calls and does not define. The spec (4.E) gives
  \<^verbatim>\<open>increment_global_bin(bin_index, delta) -> new_usage\<close>; the caller passes the
  charged size as a \<^verbatim>\<open>uint32\<close>.\<close>

definition UpdateGlobalBin ::
  "OffchainStore \<Rightarrow> u64 \<Rightarrow> u32 \<Rightarrow> u64 result \<times> OffchainStore" where
  "UpdateGlobalBin st binIndex delta =
     (let newUsage = GlobalBins st binIndex + ucast delta
      in (Inr newUsage, st\<lparr>GlobalBins := (GlobalBins st)(binIndex := newUsage)\<rparr>))"

text \<open>Modelled from the spec: \<^verbatim>\<open>OffchainStore.AddOnDemandPayment\<close>,
  which the meterer calls and does not define. The spec (4.E) gives
  \<^verbatim>\<open>insert_on_demand_payment(account, cumulative_payment, data_length) -> ok | conflict\<close>;
  the data length of the record is the charged size that the caller passes beside the
  header.\<close>

definition AddOnDemandPayment ::
  "OffchainStore \<Rightarrow> BlobHeader \<Rightarrow> u32 \<Rightarrow> unit result \<times> OffchainStore" where
  "AddOnDemandPayment st blobHeader blobSizeCharged =
     (let k = (AccountID blobHeader, CumulativePayment blobHeader)
      in if k \<in> set (map fst (OnDemand st)) then (Inl Conflict, st)
         else (Inr (), st\<lparr>OnDemand := OnDemand st @ [(k, blobSizeCharged)]\<rparr>))"

text \<open>Modelled from the spec: \<^verbatim>\<open>OffchainStore.RemoveOnDemandPayment\<close>,
  which the meterer calls and does not define. The spec (4.E) gives
  \<^verbatim>\<open>delete_on_demand_payment(account, cumulative_payment)\<close>.\<close>

definition RemoveOnDemandPayment :: "OffchainStore \<Rightarrow> string \<Rightarrow> u64 \<Rightarrow> OffchainStore" where
  "RemoveOnDemandPayment st account payment =
     st\<lparr>OnDemand := filter (\<lambda>r. fst r \<noteq> (account, payment)) (OnDemand st)\<rparr>"

text \<open>The records of one account, as pairs of cumulative payment and data length.\<close>

definition accountRecords :: "OffchainStore \<Rightarrow> string \<Rightarrow> (u64 \<times> u32) list" where
  "accountRecords st account =
     map (\<lambda>r. (snd (fst r), snd r)) (filter (\<lambda>r. fst (fst r) = account) (OnDemand st))"

text \<open>The largest payment strictly below \<open>p\<close> among the records, 0 if there is none.\<close>

fun prevRecord :: "u64 \<Rightarrow> (u64 \<times> u32) list \<Rightarrow> u64" where
  "prevRecord p [] = 0"
| "prevRecord p ((q, l) # rs) =
     (if q < p then max q (prevRecord p rs) else prevRecord p rs)"

text \<open>The record of the smallest payment strictly above \<open>p\<close>, if there is one.\<close>

fun nextRecord :: "u64 \<Rightarrow> (u64 \<times> u32) list \<Rightarrow> (u64 \<times> u32) option" where
  "nextRecord p [] = None"
| "nextRecord p ((q, l) # rs) =
     (if p < q
      then (case nextRecord p rs of
              None \<Rightarrow> Some (q, l)
            | Some (q', l') \<Rightarrow> if q' < q then Some (q', l') else Some (q, l))
      else nextRecord p rs)"

text \<open>Modelled from the spec: \<^verbatim>\<open>OffchainStore.GetRelevantOnDemandRecords\<close>,
  which the meterer calls and does not define. The spec (4.D, 4.E) gives
  \<^verbatim>\<open>neighbors(account, cumulative_payment) -> (prev, next, next_data_length)\<close>: the
  largest existing record strictly less than the payment (0 if none) and the smallest
  existing record strictly greater with its data length (0 and 0 if none).\<close>

definition GetRelevantOnDemandRecords ::
  "OffchainStore \<Rightarrow> string \<Rightarrow> u64 \<Rightarrow> (u64 \<times> u64 \<times> u32) result" where
  "GetRelevantOnDemandRecords st account payment =
     (let rs = accountRecords st account
      in case nextRecord payment rs of
           None \<Rightarrow> Inr (prevRecord payment rs, 0, 0)
         | Some (q, l) \<Rightarrow> Inr (prevRecord payment rs, q, l))"

subsection \<open>The on-chain payment state\<close>

text \<open>Modelled from the spec: \<^verbatim>\<open>OnchainPaymentState\<close>,
  which the meterer calls and does not define. The spec (4.E) gives the read-only calls \<^verbatim>\<open>current_block_number() -> u64\<close>,
  \<^verbatim>\<open>active_reservation(block, account) -> Reservation | NotFound\<close> and
  \<^verbatim>\<open>on_demand_payment(block, account) -> Deposit | NotFound\<close>, each of which can fail.
  The meterer only tells a result from an error.\<close>

record OnchainPaymentState =
  GetCurrentBlockNumber :: "u64 result"
  GetActiveReservationByAccount :: "u64 \<Rightarrow> string \<Rightarrow> ActiveReservation result"
  GetOnDemandPaymentByAccount :: "u64 \<Rightarrow> string \<Rightarrow> OnDemandPayment result"

subsection \<open>The meterer\<close>

text \<open>\<^verbatim>\<open>var OnDemandQuorumNumbers = []uint8{0, 1}\<close>\<close>

definition OnDemandQuorumNumbers :: "u8 list" where
  "OnDemandQuorumNumbers = [0, 1]"

text \<open>The loop of \<^verbatim>\<open>ValidateQuorum\<close> over the quorum numbers of the header: the first
  one that \<^verbatim>\<open>slices.Contains\<close> does not find in the allowed ones fails the request.\<close>

fun checkQuorums :: "u8 list \<Rightarrow> u8 list \<Rightarrow> unit result" where
  "checkQuorums [] allowedQuoroms = Inr ()"
| "checkQuorums (q # qs) allowedQuoroms =
     (if q \<notin> set allowedQuoroms then Inl (QuorumMismatch q)
      else checkQuorums qs allowedQuoroms)"

definition ValidateQuorum :: "BlobHeader \<Rightarrow> u8 list \<Rightarrow> unit result" where
  "ValidateQuorum blobHeader allowedQuoroms =
     (if length (QuorumNumbers blobHeader) = 0
      then Inl (Msg ''no quorum params in blob header'')
      else checkQuorums (QuorumNumbers blobHeader) allowedQuoroms)"

text \<open>\<^verbatim>\<open>GetBinIndex\<close>: \<^verbatim>\<open>uint32(timestamp) / binInterval\<close>. The conversion comes before
  the division, and a division by zero panics.\<close>

definition GetBinIndex :: "u64 \<Rightarrow> u32 \<Rightarrow> u32 result" where
  "GetBinIndex timestamp binInterval =
     (if binInterval = 0 then Inl (Panic ''integer divide by zero'')
      else Inr ((ucast timestamp :: u32) div binInterval))"

text \<open>\<^verbatim>\<open>ValidateBinIndex\<close>; \<open>now\<close> is \<^verbatim>\<open>uint64(time.Now().Unix())\<close>. All three calls of
  \<^verbatim>\<open>GetBinIndex\<close> divide by the same window, so either the first one panics or none.\<close>

definition ValidateBinIndex :: "Config \<Rightarrow> u64 \<Rightarrow> BlobHeader \<Rightarrow> ActiveReservation \<Rightarrow> bool result" where
  "ValidateBinIndex m now blobHeader reservation =
     (case GetBinIndex now (ReservationWindow m) of
        Inl e \<Rightarrow> Inl e
      | Inr currentBinIndex \<Rightarrow>
          (case GetBinIndex (StartTimestamp reservation) (ReservationWindow m) of
             Inl e \<Rightarrow> Inl e
           | Inr startBinIndex \<Rightarrow>
               (case GetBinIndex (EndTimestamp reservation) (ReservationWindow m) of
                  Inl e \<Rightarrow> Inl e
                | Inr endBinIndex \<Rightarrow>
                    if (BinIndex blobHeader \<noteq> currentBinIndex
                        \<and> BinIndex blobHeader \<noteq> currentBinIndex - 1)
                       \<or> (startBinIndex > BinIndex blobHeader
                           \<or> BinIndex blobHeader > endBinIndex)
                    then Inr False
                    else Inr True)))"

text \<open>\<^verbatim>\<open>IncrementBinUsage\<close>. The second conjunct of the spill test is evaluated only when
  the first one holds. The result of the second \<^verbatim>\<open>UpdateReservationBin\<close> is dropped, as
  in the source.\<close>

definition IncrementBinUsage ::
  "Config \<Rightarrow> OffchainStore \<Rightarrow> BlobHeader \<Rightarrow> ActiveReservation \<Rightarrow> unit result \<times> OffchainStore" where
  "IncrementBinUsage m st blobHeader reservation =
     (let recordedSize = (ucast (max (DataLength blobHeader) (MinChargeableSize m)) :: u64)
      in case UpdateReservationBin st (AccountID blobHeader)
                (ucast (BinIndex blobHeader)) recordedSize of
           (Inl e, st1) \<Rightarrow> (Inl (wrap ''failed to increment bin usage'' e), st1)
         | (Inr newUsage, st1) \<Rightarrow>
             if newUsage \<le> DataRate reservation then (Inr (), st1)
             else if newUsage - recordedSize \<ge> DataRate reservation
             then (Inl (Msg ''bin has already been filled''), st1)
             else if newUsage \<le> 2 * DataRate reservation
             then (case GetBinIndex (EndTimestamp reservation) (ReservationWindow m) of
                     Inl e \<Rightarrow> (Inl e, st1)
                   | Inr endBinIndex \<Rightarrow>
                       if BinIndex blobHeader + 2 \<le> endBinIndex
                       then (Inr (),
                             snd (UpdateReservationBin st1 (AccountID blobHeader)
                                    (ucast (BinIndex blobHeader + 2))
                                    (newUsage - DataRate reservation)))
                       else (Inl (Msg ''overflow usage exceeds bin limit''), st1))
             else (Inl (Msg ''overflow usage exceeds bin limit''), st1))"

text \<open>\<^verbatim>\<open>ServeReservationRequest\<close>\<close>

definition ServeReservationRequest ::
  "Config \<Rightarrow> u64 \<Rightarrow> OffchainStore \<Rightarrow> BlobHeader \<Rightarrow> ActiveReservation
     \<Rightarrow> unit result \<times> OffchainStore" where
  "ServeReservationRequest m now st blobHeader reservation =
     (case ValidateQuorum blobHeader (ReservationQuorumNumbers reservation) of
        Inl e \<Rightarrow> (Inl (wrap ''invalid quorum for reservation'' e), st)
      | Inr u \<Rightarrow>
          (case ValidateBinIndex m now blobHeader reservation of
             Inl e \<Rightarrow> (Inl e, st)
           | Inr False \<Rightarrow> (Inl (Msg ''invalid bin index for reservation''), st)
           | Inr True \<Rightarrow>
               (case IncrementBinUsage m st blobHeader reservation of
                  (Inl e, st1) \<Rightarrow> (Inl (wrap ''bin overflows'' e), st1)
                | (Inr u, st1) \<Rightarrow> (Inr (), st1))))"

text \<open>\<^verbatim>\<open>BlobSizeCharged\<close>\<close>

definition BlobSizeCharged :: "Config \<Rightarrow> u32 \<Rightarrow> u32" where
  "BlobSizeCharged m dataLength = max dataLength (MinChargeableSize m)"

text \<open>Modelled from the spec: \<^verbatim>\<open>core.RoundUpDivide\<close>,
  which the meterer calls and does not define. The spec (4.D) calls it \<^verbatim>\<open>ceil_div\<close>, the quotient rounded up; it is called at Go's
  \<^verbatim>\<open>uint\<close>, and an integer division by zero panics.\<close>

definition RoundUpDivide :: "u64 \<Rightarrow> u64 \<Rightarrow> u64 result" where
  "RoundUpDivide a b =
     (if b = 0 then Inl (Panic ''integer divide by zero'')
      else Inr (a div b + (if a mod b = 0 then 0 else 1)))"

text \<open>\<^verbatim>\<open>PaymentCharged\<close>. The product is one of two \<^verbatim>\<open>uint32\<close> values, so it is taken
  modulo \<open>2 ^ 32\<close> before \<^verbatim>\<open>uint(...)\<close> widens it.\<close>

definition PaymentCharged :: "Config \<Rightarrow> u32 \<Rightarrow> u64 result" where
  "PaymentCharged m dataLength =
     RoundUpDivide (ucast (BlobSizeCharged m dataLength * PricePerChargeable m))
       (ucast (MinChargeableSize m))"

text \<open>\<^verbatim>\<open>ValidatePayment\<close>. The second call of \<^verbatim>\<open>PaymentCharged\<close> is evaluated only
  when \<^verbatim>\<open>nextPmt != 0\<close>. Both sums are sums of \<^verbatim>\<open>uint64\<close> values.\<close>

definition ValidatePayment ::
  "Config \<Rightarrow> OffchainStore \<Rightarrow> BlobHeader \<Rightarrow> OnDemandPayment \<Rightarrow> unit result" where
  "ValidatePayment m st blobHeader onDemandPayment =
     (if CumulativePayment blobHeader > DepositCumulativePayment onDemandPayment
      then Inl (Msg ''request claims a cumulative payment greater than the on-chain deposit'')
      else case GetRelevantOnDemandRecords st (AccountID blobHeader)
                  (CumulativePayment blobHeader) of
             Inl e \<Rightarrow> Inl (wrap ''failed to get relevant on-demand records'' e)
           | Inr (prevPmt, nextPmt, nextPmtDataLength) \<Rightarrow>
               (case PaymentCharged m (DataLength blobHeader) of
                  Inl e \<Rightarrow> Inl e
                | Inr charge \<Rightarrow>
                    if prevPmt + charge > CumulativePayment blobHeader
                    then Inl (Msg ''insufficient cumulative payment increment'')
                    else if nextPmt \<noteq> 0
                    then (case PaymentCharged m nextPmtDataLength of
                            Inl e \<Rightarrow> Inl e
                          | Inr nextCharge \<Rightarrow>
                              if CumulativePayment blobHeader + nextCharge > nextPmt
                              then Inl (Msg ''breaking cumulative payment invariants'')
                              else Inr ())
                    else Inr ()))"

text \<open>\<^verbatim>\<open>ValidateGlobalBinIndex\<close>; \<open>now\<close> is \<^verbatim>\<open>time.Now().Unix()\<close>. No function of
  the meterer calls it.\<close>

definition ValidateGlobalBinIndex :: "u64 \<Rightarrow> BlobHeader \<Rightarrow> u32 result" where
  "ValidateGlobalBinIndex now blobHeader =
     (let currentBinIndex = (ucast now :: u32)
      in if BinIndex blobHeader \<noteq> currentBinIndex
            \<and> BinIndex blobHeader \<noteq> currentBinIndex - 1
         then Inl (Msg ''invalid bin index for on-demand request'')
         else Inr currentBinIndex)"

text \<open>\<^verbatim>\<open>IncrementGlobalBinUsage\<close>; \<open>now\<close> is \<^verbatim>\<open>uint64(time.Now().Unix())\<close>.\<close>

definition IncrementGlobalBinUsage ::
  "Config \<Rightarrow> u64 \<Rightarrow> OffchainStore \<Rightarrow> u32 \<Rightarrow> unit result \<times> OffchainStore" where
  "IncrementGlobalBinUsage m now st blobSizeCharged =
     (let globalIndex = now
      in case UpdateGlobalBin st globalIndex blobSizeCharged of
           (Inl e, st1) \<Rightarrow> (Inl (wrap ''failed to increment global bin usage'' e), st1)
         | (Inr newUsage, st1) \<Rightarrow>
             if newUsage > GlobalBytesPerSecond m
             then (Inl (Msg ''global bin usage overflows''), st1)
             else (Inr (), st1))"

text \<open>\<^verbatim>\<open>ServeOnDemandRequest\<close>. Whatever error \<^verbatim>\<open>IncrementGlobalBinUsage\<close> returns, the
  payment record is removed and the one message is returned.\<close>

definition ServeOnDemandRequest ::
  "Config \<Rightarrow> u64 \<Rightarrow> OffchainStore \<Rightarrow> BlobHeader \<Rightarrow> OnDemandPayment
     \<Rightarrow> unit result \<times> OffchainStore" where
  "ServeOnDemandRequest m now st blobHeader onDemandPayment =
     (case ValidateQuorum blobHeader OnDemandQuorumNumbers of
        Inl e \<Rightarrow> (Inl (wrap ''invalid quorum for On-Demand Request'' e), st)
      | Inr u \<Rightarrow>
          (let blobSizeCharged = BlobSizeCharged m (DataLength blobHeader)
           in case AddOnDemandPayment st blobHeader blobSizeCharged of
                (Inl e, st1) \<Rightarrow> (Inl (wrap ''failed to update cumulative payment'' e), st1)
              | (Inr u, st1) \<Rightarrow>
                  (case ValidatePayment m st1 blobHeader onDemandPayment of
                     Inl e \<Rightarrow> (Inl (wrap ''invalid on-demand payment'' e), st1)
                   | Inr u \<Rightarrow>
                       (case IncrementGlobalBinUsage m now st1 blobSizeCharged of
                          (Inl e, st2) \<Rightarrow>
                            (Inl (Msg ''failed global rate limiting''),
                             RemoveOnDemandPayment st2 (AccountID blobHeader)
                               (CumulativePayment blobHeader))
                        | (Inr u, st2) \<Rightarrow> (Inr (), st2)))))"

text \<open>\<^verbatim>\<open>MeterRequest\<close>. The meterer holds the configuration, the chain state and the
  store; they are the arguments \<open>m\<close>, \<open>chain\<close> and \<open>st\<close>.\<close>

definition MeterRequest ::
  "Config \<Rightarrow> OnchainPaymentState \<Rightarrow> u64 \<Rightarrow> OffchainStore \<Rightarrow> BlobHeader
     \<Rightarrow> unit result \<times> OffchainStore" where
  "MeterRequest m chain now st header =
     (case GetCurrentBlockNumber chain of
        Inl e \<Rightarrow> (Inl (wrap ''failed to get current block number'' e), st)
      | Inr blockNumber \<Rightarrow>
          if CumulativePayment header = 0
          then (case GetActiveReservationByAccount chain blockNumber (AccountID header) of
                  Inl e \<Rightarrow> (Inl (wrap ''failed to get active reservation by account'' e), st)
                | Inr reservation \<Rightarrow>
                    (case ServeReservationRequest m now st header reservation of
                       (Inl e, st1) \<Rightarrow> (Inl (wrap ''invalid reservation'' e), st1)
                     | (Inr u, st1) \<Rightarrow> (Inr (), st1)))
          else (case GetOnDemandPaymentByAccount chain blockNumber (AccountID header) of
                  Inl e \<Rightarrow> (Inl (wrap ''failed to get on-demand payment by account'' e), st)
                | Inr onDemandPayment \<Rightarrow>
                    (case ServeOnDemandRequest m now st header onDemandPayment of
                       (Inl e, st1) \<Rightarrow> (Inl (wrap ''invalid on-demand request'' e), st1)
                     | (Inr u, st1) \<Rightarrow> (Inr (), st1))))"

text \<open>A sequence of requests, each with the reading of the clock at its arrival, metered
  one after the other on the same store; the result is the store they leave.\<close>

fun MeterRequests ::
  "Config \<Rightarrow> OnchainPaymentState \<Rightarrow> OffchainStore \<Rightarrow> (u64 \<times> BlobHeader) list
     \<Rightarrow> OffchainStore" where
  "MeterRequests m chain st [] = st"
| "MeterRequests m chain st ((now, header) # requests) =
     MeterRequests m chain (snd (MeterRequest m chain now st header)) requests"

subsection \<open>The boundary scenarios of the spec\<close>

text \<open>The configuration of the boundary scenarios (spec, section 8): a minimum chargeable
  size of 1024, a price of 100 per chargeable unit, a reservation window of 60 seconds and
  a global rate of 1048576 bytes per second.\<close>

definition scenarioConfig :: Config where
  "scenarioConfig =
     \<lparr>GlobalBytesPerSecond = 1048576, PricePerChargeable = 100,
      MinChargeableSize = 1024, ReservationWindow = 60\<rparr>"

text \<open>A store that was never written.\<close>

definition emptyStore :: OffchainStore where
  "emptyStore = \<lparr>ReservationBins = (\<lambda>k. 0), GlobalBins = (\<lambda>k. 0), OnDemand = []\<rparr>"

text \<open>The reservation of scenarios 1 to 3, a data rate of 4096 on quorums 0 and 1, valid
  from second 0 to second 6000, and the deposit of scenarios 4 to 6.\<close>

definition scenarioReservation :: ActiveReservation where
  "scenarioReservation =
     \<lparr>DataRate = 4096, StartTimestamp = 0, EndTimestamp = 6000,
      ReservationQuorumNumbers = [0, 1]\<rparr>"

definition scenarioDeposit :: OnDemandPayment where
  "scenarioDeposit = \<lparr>DepositCumulativePayment = 1000000\<rparr>"

text \<open>A chain state at block 1 that gives every account that reservation and that
  deposit.\<close>

definition scenarioChain :: OnchainPaymentState where
  "scenarioChain =
     \<lparr>GetCurrentBlockNumber = Inr 1,
      GetActiveReservationByAccount = (\<lambda>blockNumber account. Inr scenarioReservation),
      GetOnDemandPaymentByAccount = (\<lambda>blockNumber account. Inr scenarioDeposit)\<rparr>"

text \<open>A reservation request of 3000 bytes for bin 2 (seconds 120 to 179), and an on-demand
  request of 2048 bytes that claims a cumulative payment of 200.\<close>

definition reservationRequest :: BlobHeader where
  "reservationRequest =
     \<lparr>AccountID = ''account'', QuorumNumbers = [0], DataLength = 3000, BinIndex = 2,
      CumulativePayment = 0\<rparr>"

definition onDemandRequest :: BlobHeader where
  "onDemandRequest =
     \<lparr>AccountID = ''account'', QuorumNumbers = [0, 1], DataLength = 2048, BinIndex = 0,
      CumulativePayment = 200\<rparr>"

text \<open>The same reservation, ending 180 seconds after second \<open>2 ^ 32\<close>.\<close>

definition lateReservation :: ActiveReservation where
  "lateReservation = scenarioReservation\<lparr>EndTimestamp := 4294967476\<rparr>"

subsection \<open>The charge of the spec\<close>

text \<open>The spec's \<^verbatim>\<open>ceil_div\<close> on the natural numbers: the quotient rounded up.\<close>

definition ceil_div :: "nat \<Rightarrow> nat \<Rightarrow> nat" where
  "ceil_div a b = (a + b - 1) div b"

section \<open>Properties\<close>

lemmas scenario_defs =
  scenarioConfig_def emptyStore_def scenarioReservation_def scenarioDeposit_def
  scenarioChain_def reservationRequest_def onDemandRequest_def

lemmas meterer_defs =
  MeterRequest_def ServeReservationRequest_def ServeOnDemandRequest_def ValidateQuorum_def
  ValidateBinIndex_def GetBinIndex_def IncrementBinUsage_def UpdateReservationBin_def
  ValidatePayment_def PaymentCharged_def BlobSizeCharged_def RoundUpDivide_def
  GetRelevantOnDemandRecords_def accountRecords_def AddOnDemandPayment_def
  RemoveOnDemandPayment_def IncrementGlobalBinUsage_def UpdateGlobalBin_def
  OnDemandQuorumNumbers_def accepted_def Let_def

subsection \<open>Bin indices\<close>

lemma trunc_div_less:
  fixes n w :: nat
  assumes "0 < w" "w < 2 ^ 32" "2 ^ 32 \<le> n"
  shows "(n mod 2 ^ 32) div w < n div w"
proof -
  let ?r = "n mod 2 ^ 32"
  have "?r + 2 ^ 32 \<le> n"
  proof -
    have "n = 2 ^ 32 * (n div 2 ^ 32) + ?r" by simp
    moreover have "1 \<le> n div 2 ^ 32"
      using assms(3) by (simp add: div_greater_zero_iff Suc_le_eq)
    then have "(2::nat) ^ 32 * 1 \<le> 2 ^ 32 * (n div 2 ^ 32)" by (rule mult_le_mono2)
    ultimately show ?thesis by linarith
  qed
  moreover have "?r + w \<le> ?r + 2 ^ 32" using assms(2) by simp
  ultimately have "(?r + w) div w \<le> n div w"
    by (meson div_le_mono order_trans)
  moreover have "(?r + w) div w = ?r div w + 1"
    using assms(1) div_add_self2[of w ?r] by simp
  ultimately show ?thesis by simp
qed

lemma unat_GetBinIndex:
  "w \<noteq> 0 \<Longrightarrow> GetBinIndex t w = Inr i \<Longrightarrow> unat i = (unat t mod 2 ^ 32) div unat w"
  by (auto simp: GetBinIndex_def unat_div unsigned_ucast_eq take_bit_eq_mod)

text \<open>
  C10. For every timestamp \<open>t\<close> and every window \<open>w > 0\<close>, \<open>GetBinIndex t w\<close> returns the
  index \<open>(t mod 2 ^ 32) div w\<close>: the timestamp is cut to 32 bits before the division. For
  a timestamp of \<open>2 ^ 32\<close> seconds or more this index is strictly below \<open>t div w\<close>, the
  floor of \<open>t / w\<close> that the spec names.
\<close>

theorem GetBinIndex_truncates_timestamp:
  assumes "0 < w"
  shows "\<exists>i. GetBinIndex t w = Inr i
           \<and> unat i = (unat t mod 2 ^ 32) div unat w
           \<and> (2 ^ 32 \<le> unat t \<longrightarrow> unat i < unat t div unat w)"
proof -
  have w0: "w \<noteq> 0" using assms by auto
  then obtain i where i: "GetBinIndex t w = Inr i" by (simp add: GetBinIndex_def)
  have u: "unat i = (unat t mod 2 ^ 32) div unat w" using unat_GetBinIndex[OF w0 i] .
  have "0 < unat w" using w0 by (simp add: unat_gt_0)
  moreover have "unat w < 2 ^ 32" using unsigned_less[of w, where 'a=nat] by simp
  ultimately have "2 ^ 32 \<le> unat t \<longrightarrow> unat i < unat t div unat w"
    using trunc_div_less[of "unat w" "unat t"] u by simp
  with i u show ?thesis by blast
qed

text \<open>At \<open>t = 2 ^ 32 + 180\<close> and a window of 60 seconds the index is 3, where
  \<open>t div 60\<close> is 71582791.\<close>

theorem GetBinIndex_truncates_timestamp_witness:
  "(0::u32) < 60 \<and> GetBinIndex 4294967476 60 = Inr 3
     \<and> unat (3::u32) = (unat (4294967476::u64) mod 2 ^ 32) div unat (60::u32)
     \<and> 2 ^ 32 \<le> unat (4294967476::u64)
     \<and> unat (3::u32) < unat (4294967476::u64) div unat (60::u32)"
  using GetBinIndex_truncates_timestamp[of 60 4294967476]
  by (simp add: GetBinIndex_def)

subsection \<open>The quorum check\<close>

lemma accepted_simps [simp]: "accepted (Inl e) = False" "accepted (Inr v) = True"
  by (simp_all add: accepted_def)

lemma not_Inr_unit: "(r \<noteq> Inr ()) = (\<exists>e. r = Inl e)" for r :: "unit result"
  by (cases r) auto

lemma checkQuorums_accepts_iff:
  "(checkQuorums qs allowed = Inr ()) = (set qs \<subseteq> set allowed)"
  by (induction qs) auto

lemma ValidateQuorum_iff:
  "(ValidateQuorum h allowed = Inr ())
     = (QuorumNumbers h \<noteq> [] \<and> set (QuorumNumbers h) \<subseteq> set allowed)"
  by (simp add: ValidateQuorum_def checkQuorums_accepts_iff)

lemma set_OnDemandQuorumNumbers: "set OnDemandQuorumNumbers = {0, 1}"
  by (auto simp: OnDemandQuorumNumbers_def)

text \<open>
  C7. \<open>ValidateQuorum\<close> accepts exactly when the quorum numbers of the request are not
  empty and each of them is among the allowed ones. The on-demand path checks against
  \<open>{0, 1}\<close> and the reservation path against the quorums of the reservation: a request
  that either path accepts has passed the check, and a request that fails it is rejected
  by the path with the store untouched.
\<close>

theorem quorum_check_accepts_exactly_allowed:
  "((ValidateQuorum h allowed = Inr ())
      = (QuorumNumbers h \<noteq> [] \<and> set (QuorumNumbers h) \<subseteq> set allowed))
   \<and> (accepted (fst (ServeOnDemandRequest m now st h d))
        \<longrightarrow> QuorumNumbers h \<noteq> [] \<and> set (QuorumNumbers h) \<subseteq> {0, 1})
   \<and> (\<not> (QuorumNumbers h \<noteq> [] \<and> set (QuorumNumbers h) \<subseteq> {0, 1})
        \<longrightarrow> (\<exists>e. ServeOnDemandRequest m now st h d = (Inl e, st)))
   \<and> (accepted (fst (ServeReservationRequest m now st h r))
        \<longrightarrow> QuorumNumbers h \<noteq> []
            \<and> set (QuorumNumbers h) \<subseteq> set (ReservationQuorumNumbers r))
   \<and> (\<not> (QuorumNumbers h \<noteq> []
            \<and> set (QuorumNumbers h) \<subseteq> set (ReservationQuorumNumbers r))
        \<longrightarrow> (\<exists>e. ServeReservationRequest m now st h r = (Inl e, st)))"
proof -
  have a: "(ValidateQuorum h a = Inr ())
      = (QuorumNumbers h \<noteq> [] \<and> set (QuorumNumbers h) \<subseteq> set a)" for a
    by (rule ValidateQuorum_iff)
  have od: "(\<exists>e. ServeOnDemandRequest m now st h d = (Inl e, st))"
    if "ValidateQuorum h OnDemandQuorumNumbers \<noteq> Inr ()"
    using that by (auto simp: ServeOnDemandRequest_def not_Inr_unit)
  have rs: "(\<exists>e. ServeReservationRequest m now st h r = (Inl e, st))"
    if "ValidateQuorum h (ReservationQuorumNumbers r) \<noteq> Inr ()"
    using that by (auto simp: ServeReservationRequest_def not_Inr_unit)
  have od': "ValidateQuorum h OnDemandQuorumNumbers = Inr ()"
    if "accepted (fst (ServeOnDemandRequest m now st h d))"
  proof (rule ccontr)
    assume "ValidateQuorum h OnDemandQuorumNumbers \<noteq> Inr ()"
    from od[OF this] that show False by auto
  qed
  have rs': "ValidateQuorum h (ReservationQuorumNumbers r) = Inr ()"
    if "accepted (fst (ServeReservationRequest m now st h r))"
  proof (rule ccontr)
    assume "ValidateQuorum h (ReservationQuorumNumbers r) \<noteq> Inr ()"
    from rs[OF this] that show False by auto
  qed
  show ?thesis
    using a[of allowed] od od' rs rs' a[of OnDemandQuorumNumbers]
      a[of "ReservationQuorumNumbers r"]
    unfolding set_OnDemandQuorumNumbers by blast
qed

text \<open>The two scenario requests pass the check and are accepted; with quorum 2 among
  the quorum numbers each is rejected for that quorum and the store stays empty.\<close>

theorem quorum_check_accepts_exactly_allowed_witness:
  "ValidateQuorum onDemandRequest OnDemandQuorumNumbers = Inr ()
   \<and> accepted (fst (ServeOnDemandRequest scenarioConfig 7 emptyStore onDemandRequest
                      scenarioDeposit))
   \<and> QuorumNumbers onDemandRequest \<noteq> []
   \<and> set (QuorumNumbers onDemandRequest) \<subseteq> {0, 1}
   \<and> \<not> set (QuorumNumbers (onDemandRequest\<lparr>QuorumNumbers := [0, 2]\<rparr>)) \<subseteq> {0, 1}
   \<and> ServeOnDemandRequest scenarioConfig 7 emptyStore
        (onDemandRequest\<lparr>QuorumNumbers := [0, 2]\<rparr>) scenarioDeposit
      = (Inl (Wrap ''invalid quorum for On-Demand Request'' (QuorumMismatch 2)), emptyStore)
   \<and> accepted (fst (ServeReservationRequest scenarioConfig 130 emptyStore reservationRequest
                      scenarioReservation))
   \<and> set (QuorumNumbers reservationRequest) \<subseteq> set (ReservationQuorumNumbers scenarioReservation)
   \<and> \<not> set (QuorumNumbers (reservationRequest\<lparr>QuorumNumbers := [0, 2]\<rparr>))
          \<subseteq> set (ReservationQuorumNumbers scenarioReservation)
   \<and> ServeReservationRequest scenarioConfig 130 emptyStore
        (reservationRequest\<lparr>QuorumNumbers := [0, 2]\<rparr>) scenarioReservation
      = (Inl (Wrap ''invalid quorum for reservation'' (QuorumMismatch 2)), emptyStore)"
  using quorum_check_accepts_exactly_allowed
          [where h = onDemandRequest and allowed = OnDemandQuorumNumbers
             and m = scenarioConfig and now = 7 and st = emptyStore and d = scenarioDeposit]
        quorum_check_accepts_exactly_allowed
          [where h = "onDemandRequest\<lparr>QuorumNumbers := [0, 2]\<rparr>"
             and m = scenarioConfig and now = 7 and st = emptyStore and d = scenarioDeposit]
        quorum_check_accepts_exactly_allowed
          [where h = reservationRequest
             and m = scenarioConfig and now = 130 and st = emptyStore
             and r = scenarioReservation]
        quorum_check_accepts_exactly_allowed
          [where h = "reservationRequest\<lparr>QuorumNumbers := [0, 2]\<rparr>"
             and m = scenarioConfig and now = 130 and st = emptyStore
             and r = scenarioReservation]
  by (simp add: meterer_defs scenario_defs)


subsection \<open>Routing\<close>

lemma propagate_facts:
  fixes r :: "unit result \<times> OffchainStore"
  assumes "p = (case r of (Inl e, s) \<Rightarrow> (Inl (wrap msg e), s) | (Inr u, s) \<Rightarrow> (Inr (), s))"
  shows "snd p = snd r \<and> accepted (fst p) = accepted (fst r)
         \<and> (\<forall>e. fst r = Inl e \<longrightarrow> fst p = Inl (wrap msg e))"
  unfolding assms by (cases r; cases "fst r") auto

text \<open>
  C6. Once the block number is read, \<open>MeterRequest\<close> takes the reservation path exactly
  when the cumulative payment of the request is 0: it reads the active reservation of the
  account and hands the request to \<open>ServeReservationRequest\<close>. Otherwise it reads the
  on-demand deposit and hands the request to \<open>ServeOnDemandRequest\<close>. The store the
  accountant leaves and its decision are those of \<open>MeterRequest\<close>; a rejection comes back
  wrapped. A failed read of the chain rejects the request with the store untouched.
\<close>

theorem MeterRequest_routes_by_cumulative_payment:
  assumes "GetCurrentBlockNumber chain = Inr blockNumber"
  shows "(CumulativePayment header = 0 \<longrightarrow>
            (case GetActiveReservationByAccount chain blockNumber (AccountID header) of
               Inl e \<Rightarrow>
                 MeterRequest m chain now st header
                   = (Inl (wrap ''failed to get active reservation by account'' e), st)
             | Inr reservation \<Rightarrow>
                 snd (MeterRequest m chain now st header)
                   = snd (ServeReservationRequest m now st header reservation)
                 \<and> accepted (fst (MeterRequest m chain now st header))
                   = accepted (fst (ServeReservationRequest m now st header reservation))
                 \<and> (\<forall>e. fst (ServeReservationRequest m now st header reservation) = Inl e
                      \<longrightarrow> fst (MeterRequest m chain now st header)
                            = Inl (wrap ''invalid reservation'' e))))
       \<and> (CumulativePayment header \<noteq> 0 \<longrightarrow>
            (case GetOnDemandPaymentByAccount chain blockNumber (AccountID header) of
               Inl e \<Rightarrow>
                 MeterRequest m chain now st header
                   = (Inl (wrap ''failed to get on-demand payment by account'' e), st)
             | Inr onDemandPayment \<Rightarrow>
                 snd (MeterRequest m chain now st header)
                   = snd (ServeOnDemandRequest m now st header onDemandPayment)
                 \<and> accepted (fst (MeterRequest m chain now st header))
                   = accepted (fst (ServeOnDemandRequest m now st header onDemandPayment))
                 \<and> (\<forall>e. fst (ServeOnDemandRequest m now st header onDemandPayment) = Inl e
                      \<longrightarrow> fst (MeterRequest m chain now st header)
                            = Inl (wrap ''invalid on-demand request'' e))))"
proof -
  have res: "?thesis" if "CumulativePayment header = 0"
  proof (cases "GetActiveReservationByAccount chain blockNumber (AccountID header)")
    case (Inl e)
    with that assms show ?thesis by (simp add: MeterRequest_def)
  next
    case (Inr reservation)
    have "MeterRequest m chain now st header
            = (case ServeReservationRequest m now st header reservation of
                 (Inl e, s) \<Rightarrow> (Inl (wrap ''invalid reservation'' e), s)
               | (Inr u, s) \<Rightarrow> (Inr (), s))"
      using that assms Inr by (simp add: MeterRequest_def)
    from propagate_facts[OF this] that Inr show ?thesis by simp
  qed
  have od: "?thesis" if "CumulativePayment header \<noteq> 0"
  proof (cases "GetOnDemandPaymentByAccount chain blockNumber (AccountID header)")
    case (Inl e)
    with that assms show ?thesis by (simp add: MeterRequest_def)
  next
    case (Inr onDemandPayment)
    have "MeterRequest m chain now st header
            = (case ServeOnDemandRequest m now st header onDemandPayment of
                 (Inl e, s) \<Rightarrow> (Inl (wrap ''invalid on-demand request'' e), s)
               | (Inr u, s) \<Rightarrow> (Inr (), s))"
      using that assms Inr by (simp add: MeterRequest_def)
    from propagate_facts[OF this] that Inr show ?thesis by simp
  qed
  from res od show ?thesis by blast
qed

text \<open>An accepted and a rejected request on each path.\<close>

theorem MeterRequest_routes_by_cumulative_payment_witness:
  "GetCurrentBlockNumber scenarioChain = Inr 1
   \<and> CumulativePayment reservationRequest = 0
   \<and> GetActiveReservationByAccount scenarioChain 1 (AccountID reservationRequest)
       = Inr scenarioReservation
   \<and> MeterRequest scenarioConfig scenarioChain 130 emptyStore reservationRequest
       = (Inr (), snd (ServeReservationRequest scenarioConfig 130 emptyStore reservationRequest
                         scenarioReservation))
   \<and> fst (ServeReservationRequest scenarioConfig 130 emptyStore
             (reservationRequest\<lparr>BinIndex := 7\<rparr>) scenarioReservation)
       = Inl (Msg ''invalid bin index for reservation'')
   \<and> fst (MeterRequest scenarioConfig scenarioChain 130 emptyStore
             (reservationRequest\<lparr>BinIndex := 7\<rparr>))
       = Inl (Wrap ''invalid reservation'' (Msg ''invalid bin index for reservation''))
   \<and> CumulativePayment onDemandRequest \<noteq> 0
   \<and> GetOnDemandPaymentByAccount scenarioChain 1 (AccountID onDemandRequest)
       = Inr scenarioDeposit
   \<and> MeterRequest scenarioConfig scenarioChain 130 emptyStore onDemandRequest
       = (Inr (), snd (ServeOnDemandRequest scenarioConfig 130 emptyStore onDemandRequest
                         scenarioDeposit))
   \<and> fst (ServeOnDemandRequest scenarioConfig 130 emptyStore
             (onDemandRequest\<lparr>CumulativePayment := 100\<rparr>) scenarioDeposit)
       = Inl (Wrap ''invalid on-demand payment''
               (Msg ''insufficient cumulative payment increment''))
   \<and> fst (MeterRequest scenarioConfig scenarioChain 130 emptyStore
             (onDemandRequest\<lparr>CumulativePayment := 100\<rparr>))
       = Inl (Wrap ''invalid on-demand request''
               (Wrap ''invalid on-demand payment''
                 (Msg ''insufficient cumulative payment increment'')))"
  using MeterRequest_routes_by_cumulative_payment
          [where chain = scenarioChain and blockNumber = 1 and header = reservationRequest
             and m = scenarioConfig and now = 130 and st = emptyStore]
        MeterRequest_routes_by_cumulative_payment
          [where chain = scenarioChain and blockNumber = 1
             and header = "reservationRequest\<lparr>BinIndex := 7\<rparr>"
             and m = scenarioConfig and now = 130 and st = emptyStore]
        MeterRequest_routes_by_cumulative_payment
          [where chain = scenarioChain and blockNumber = 1 and header = onDemandRequest
             and m = scenarioConfig and now = 130 and st = emptyStore]
        MeterRequest_routes_by_cumulative_payment
          [where chain = scenarioChain and blockNumber = 1
             and header = "onDemandRequest\<lparr>CumulativePayment := 100\<rparr>"
             and m = scenarioConfig and now = 130 and st = emptyStore]
  by (simp add: meterer_defs scenario_defs)

subsection \<open>The reservation bins\<close>

lemma GetBinIndex_Inr:
  "w \<noteq> 0 \<Longrightarrow> GetBinIndex t w = Inr (ucast t div w)"
  by (simp add: GetBinIndex_def)

lemma unat_ucast_div:
  fixes t :: u64 and w :: u32
  shows "unat ((ucast t :: u32) div w) = (unat t mod 2 ^ 32) div unat w"
  by (simp add: unat_div unsigned_ucast_eq take_bit_eq_mod)

text \<open>
  C1, as amended. For a reservation window above 0, \<open>IncrementBinUsage\<close> first adds
  \<open>sz = max data_length min_chargeable_size\<close> to the counter of the account at the bin
  index of the request, which gives \<open>newUsage\<close> and the store \<open>st1\<close>. It accepts if
  \<open>newUsage \<le> data_rate\<close>; it rejects if \<open>newUsage - sz \<ge> data_rate\<close>; otherwise, if
  \<open>newUsage \<le> 2 * data_rate\<close> and \<open>bin_index + 2\<close> is at most
  \<open>(end_ts mod 2 ^ 32) div reservation_window\<close>, it adds \<open>newUsage - data_rate\<close> to the
  counter at \<open>bin_index + 2\<close> and accepts; otherwise it rejects. Every rejection leaves
  the first increment in the store. The sums, the difference and the product are those
  of the machine: 64 bits wide on the usage and the rate, 32 bits wide on the bin index.
\<close>

theorem IncrementBinUsage_decision:
  assumes "0 < ReservationWindow m"
    and "sz = ucast (max (DataLength h) (MinChargeableSize m))"
    and "newUsage = ReservationBins st (AccountID h, ucast (BinIndex h)) + sz"
    and "st1 = st\<lparr>ReservationBins :=
                      (ReservationBins st)((AccountID h, ucast (BinIndex h)) := newUsage)\<rparr>"
    and "st2 = st1\<lparr>ReservationBins :=
                      (ReservationBins st1)((AccountID h, ucast (BinIndex h + 2)) :=
                         ReservationBins st1 (AccountID h, ucast (BinIndex h + 2))
                           + (newUsage - DataRate r))\<rparr>"
  shows "IncrementBinUsage m st h r =
           (if newUsage \<le> DataRate r then (Inr (), st1)
            else if newUsage - sz \<ge> DataRate r
            then (Inl (Msg ''bin has already been filled''), st1)
            else if newUsage \<le> 2 * DataRate r
                    \<and> unat (BinIndex h + 2)
                          \<le> (unat (EndTimestamp r) mod 2 ^ 32) div unat (ReservationWindow m)
            then (Inr (), st2)
            else (Inl (Msg ''overflow usage exceeds bin limit''), st1))"
proof -
  have w0: "ReservationWindow m \<noteq> 0" using assms(1) by auto
  have le: "(BinIndex h + 2 \<le> ucast (EndTimestamp r) div ReservationWindow m)
              = (unat (BinIndex h + 2)
                   \<le> (unat (EndTimestamp r) mod 2 ^ 32) div unat (ReservationWindow m))"
    by (simp add: word_le_nat_alt unat_ucast_div)
  show ?thesis
    unfolding IncrementBinUsage_def UpdateReservationBin_def Let_def
      GetBinIndex_Inr[OF w0] assms(2-5) le[symmetric]
    by simp
qed


text \<open>The first three boundary scenarios of the spec: 3000 bytes are accepted, 2000 more
  spill 904 bytes into bin 4, and a third request finds the bin filled (it is charged
  1024 bytes, so the counter reads 6024). A request of 6000 bytes after the first one is
  rejected since 9000 is more than twice the rate.\<close>

theorem IncrementBinUsage_decision_witness:
  "0 < ReservationWindow scenarioConfig
   \<and> IncrementBinUsage scenarioConfig emptyStore reservationRequest scenarioReservation
       = (Inr (), emptyStore\<lparr>ReservationBins := (\<lambda>k. 0)((''account'', 2) := 3000)\<rparr>)
   \<and> IncrementBinUsage scenarioConfig
         (emptyStore\<lparr>ReservationBins := (\<lambda>k. 0)((''account'', 2) := 3000)\<rparr>)
         (reservationRequest\<lparr>DataLength := 2000\<rparr>) scenarioReservation
       = (Inr (), emptyStore\<lparr>ReservationBins :=
                     (\<lambda>k. 0)((''account'', 2) := 5000, (''account'', 4) := 904)\<rparr>)
   \<and> IncrementBinUsage scenarioConfig
         (emptyStore\<lparr>ReservationBins :=
                     (\<lambda>k. 0)((''account'', 2) := 5000, (''account'', 4) := 904)\<rparr>)
         (reservationRequest\<lparr>DataLength := 100\<rparr>) scenarioReservation
       = (Inl (Msg ''bin has already been filled''),
          emptyStore\<lparr>ReservationBins :=
                     (\<lambda>k. 0)((''account'', 2) := 6024, (''account'', 4) := 904)\<rparr>)
   \<and> IncrementBinUsage scenarioConfig
         (emptyStore\<lparr>ReservationBins := (\<lambda>k. 0)((''account'', 2) := 3000)\<rparr>)
         (reservationRequest\<lparr>DataLength := 6000\<rparr>) scenarioReservation
       = (Inl (Msg ''overflow usage exceeds bin limit''),
          emptyStore\<lparr>ReservationBins := (\<lambda>k. 0)((''account'', 2) := 9000)\<rparr>)"
  using IncrementBinUsage_decision
          [OF _ refl refl refl refl, where m = scenarioConfig and h = reservationRequest
             and st = emptyStore and r = scenarioReservation]
        IncrementBinUsage_decision
          [OF _ refl refl refl refl, where m = scenarioConfig
             and h = "reservationRequest\<lparr>DataLength := 2000\<rparr>"
             and st = "emptyStore\<lparr>ReservationBins := (\<lambda>k. 0)((''account'', 2) := 3000)\<rparr>"
             and r = scenarioReservation]
        IncrementBinUsage_decision
          [OF _ refl refl refl refl, where m = scenarioConfig
             and h = "reservationRequest\<lparr>DataLength := 100\<rparr>"
             and st = "emptyStore\<lparr>ReservationBins :=
                     (\<lambda>k. 0)((''account'', 2) := 5000, (''account'', 4) := 904)\<rparr>"
             and r = scenarioReservation]
        IncrementBinUsage_decision
          [OF _ refl refl refl refl, where m = scenarioConfig
             and h = "reservationRequest\<lparr>DataLength := 6000\<rparr>"
             and st = "emptyStore\<lparr>ReservationBins := (\<lambda>k. 0)((''account'', 2) := 3000)\<rparr>"
             and r = scenarioReservation]
  by (simp add: scenario_defs fun_upd_twist)

text \<open>
  C1 as the spec states it fails on a reservation that ends at second \<open>2 ^ 32 + 180\<close>:
  with 3000 bytes in bin 2 and a rate of 4096, a request of 3000 bytes brings the usage to
  6000, the bin was not filled before, 6000 is at most twice the rate and
  \<open>bin_index + 2 = 4\<close> is at most \<open>end_ts div 60 = 71582791\<close>, and yet the request is
  rejected: the end bin that \<open>GetBinIndex\<close> computes is 3.
\<close>

theorem IncrementBinUsage_end_bin_counterexample:
  "unat (ReservationBins (emptyStore\<lparr>ReservationBins := (\<lambda>k. 0)((''account'', 2) := 3000)\<rparr>)
            (AccountID reservationRequest, ucast (BinIndex reservationRequest)))
     + unat (max (DataLength reservationRequest) (MinChargeableSize scenarioConfig)) = 6000
   \<and> unat (DataRate lateReservation) = 4096
   \<and> \<not> 6000 \<le> unat (DataRate lateReservation)
   \<and> \<not> 6000 - unat (max (DataLength reservationRequest) (MinChargeableSize scenarioConfig))
          \<ge> unat (DataRate lateReservation)
   \<and> 6000 \<le> 2 * unat (DataRate lateReservation)
   \<and> unat (BinIndex reservationRequest) + 2
        \<le> unat (EndTimestamp lateReservation) div unat (ReservationWindow scenarioConfig)
   \<and> IncrementBinUsage scenarioConfig
        (emptyStore\<lparr>ReservationBins := (\<lambda>k. 0)((''account'', 2) := 3000)\<rparr>)
        reservationRequest lateReservation
      = (Inl (Msg ''overflow usage exceeds bin limit''),
         emptyStore\<lparr>ReservationBins := (\<lambda>k. 0)((''account'', 2) := 6000)\<rparr>)"
  by (simp add: meterer_defs scenario_defs lateReservation_def)

lemma unat_ucast_u32_u64:
  fixes x :: u32
  shows "unat (ucast x :: u64) = unat x"
proof -
  have "unat x < 2 ^ 32" using unsigned_less[of x, where 'a=nat] by simp
  then have "unat x < 2 ^ 64" by simp
  then show ?thesis by (simp add: unsigned_ucast_eq take_bit_nat_eq_self)
qed

lemma ucast_bin_plus2_neq:
  fixes b :: u32
  shows "(ucast (b + 2) :: u64) \<noteq> ucast b"
proof
  assume "(ucast (b + 2) :: u64) = ucast b"
  then have "unat (ucast (b + 2) :: u64) = unat (ucast b :: u64)" by simp
  then have "unat (b + 2) = unat b"
    by (simp add: unat_ucast_u32_u64)
  then have "b + 2 = b" by (simp add: word_unat_eq_iff)
  then show False by simp
qed

lemma unat_double_le:
  fixes x :: u64
  shows "unat (2 * x) \<le> 2 * unat x"
  by (simp add: unat_word_ariths)

lemma IncrementBinUsage_accepted_usage:
  assumes "IncrementBinUsage m st h r = (Inr (), st')"
  shows "unat (ReservationBins st' (AccountID h, ucast (BinIndex h))) \<le> 2 * unat (DataRate r)"
proof -
  let ?k = "(AccountID h, ucast (BinIndex h) :: u64)"
  let ?new = "ReservationBins st ?k + ucast (max (DataLength h) (MinChargeableSize m))"
  have *: "ReservationBins st' ?k = ?new \<and> (?new \<le> DataRate r \<or> ?new \<le> 2 * DataRate r)"
    using assms ucast_bin_plus2_neq[of "BinIndex h"]
    by (auto simp: IncrementBinUsage_def UpdateReservationBin_def Let_def
             split: if_splits sum.splits)
  then have "unat ?new \<le> unat (DataRate r) \<or> unat ?new \<le> unat (2 * DataRate r)"
    by (simp add: word_le_nat_alt)
  then have "unat ?new \<le> 2 * unat (DataRate r)"
    using unat_double_le[of "DataRate r"] by linarith
  with * show ?thesis by simp
qed

lemma IncrementBinUsage_frame:
  assumes "k \<noteq> (AccountID h, ucast (BinIndex h))"
    and "k \<noteq> (AccountID h, ucast (BinIndex h + 2))"
  shows "ReservationBins (snd (IncrementBinUsage m st h r)) k = ReservationBins st k"
  using assms
  by (auto simp: IncrementBinUsage_def UpdateReservationBin_def Let_def
           split: if_splits sum.splits)

lemma IncrementBinUsage_other_tables:
  "GlobalBins (snd (IncrementBinUsage m st h r)) = GlobalBins st
   \<and> OnDemand (snd (IncrementBinUsage m st h r)) = OnDemand st"
  by (auto simp: IncrementBinUsage_def UpdateReservationBin_def Let_def
           split: if_splits sum.splits)


lemma MeterRequest_reservation_accepted:
  assumes "GetCurrentBlockNumber chain = Inr blockNumber"
    and "CumulativePayment h = 0"
    and "GetActiveReservationByAccount chain blockNumber (AccountID h) = Inr r"
    and "accepted (fst (MeterRequest m chain now st h))"
  shows "IncrementBinUsage m st h r = (Inr (), snd (MeterRequest m chain now st h))"
  using assms
  by (auto simp: MeterRequest_def ServeReservationRequest_def
           split: sum.splits prod.splits bool.splits)

lemma MeterRequest_reservation_store:
  assumes "GetCurrentBlockNumber chain = Inr blockNumber"
    and "CumulativePayment h = 0"
    and "GetActiveReservationByAccount chain blockNumber (AccountID h) = Inr r"
  shows "snd (MeterRequest m chain now st h) = st
         \<or> snd (MeterRequest m chain now st h) = snd (IncrementBinUsage m st h r)"
  using assms
  by (auto simp: MeterRequest_def ServeReservationRequest_def
           split: sum.splits prod.splits bool.splits)

text \<open>
  C3, as amended. When \<open>MeterRequest\<close> accepts a reservation request, the counter of
  the account at the bin index of the request is at most twice the data rate of the
  reservation afterwards, and no other counter has changed but the one two bins later,
  where a spill lands.
\<close>

theorem accepted_reservation_usage_bounded:
  assumes "GetCurrentBlockNumber chain = Inr blockNumber"
    and "CumulativePayment h = 0"
    and "GetActiveReservationByAccount chain blockNumber (AccountID h) = Inr r"
    and "accepted (fst (MeterRequest m chain now st h))"
  shows "unat (ReservationBins (snd (MeterRequest m chain now st h))
                 (AccountID h, ucast (BinIndex h)))
           \<le> 2 * unat (DataRate r)
         \<and> (\<forall>k. k \<noteq> (AccountID h, ucast (BinIndex h))
                \<and> k \<noteq> (AccountID h, ucast (BinIndex h + 2))
              \<longrightarrow> ReservationBins (snd (MeterRequest m chain now st h)) k
                    = ReservationBins st k)"
proof -
  have inc: "IncrementBinUsage m st h r = (Inr (), snd (MeterRequest m chain now st h))"
    using assms by (rule MeterRequest_reservation_accepted)
  have "unat (ReservationBins (snd (MeterRequest m chain now st h))
                 (AccountID h, ucast (BinIndex h)))
           \<le> 2 * unat (DataRate r)"
    using inc by (rule IncrementBinUsage_accepted_usage)
  moreover have "ReservationBins (snd (MeterRequest m chain now st h)) k = ReservationBins st k"
    if "k \<noteq> (AccountID h, ucast (BinIndex h))" "k \<noteq> (AccountID h, ucast (BinIndex h + 2))"
    for k
    using IncrementBinUsage_frame[OF that, of m st r] inc by simp
  ultimately show ?thesis by blast
qed

text \<open>The second request of 3000 bytes at a rate of 4096: the bin holds 6000 bytes, 1904
  bytes spill into bin 4 and bin 3 is untouched.\<close>

theorem accepted_reservation_usage_bounded_witness:
  "GetCurrentBlockNumber scenarioChain = Inr 1
   \<and> CumulativePayment reservationRequest = 0
   \<and> GetActiveReservationByAccount scenarioChain 1 (AccountID reservationRequest)
       = Inr scenarioReservation
   \<and> accepted (fst (MeterRequest scenarioConfig scenarioChain 130
                      (emptyStore\<lparr>ReservationBins := (\<lambda>k. 0)((''account'', 2) := 3000)\<rparr>)
                      reservationRequest))
   \<and> unat (ReservationBins
              (snd (MeterRequest scenarioConfig scenarioChain 130
                      (emptyStore\<lparr>ReservationBins := (\<lambda>k. 0)((''account'', 2) := 3000)\<rparr>)
                      reservationRequest))
              (AccountID reservationRequest, ucast (BinIndex reservationRequest))) = 6000
   \<and> 6000 \<le> 2 * unat (DataRate scenarioReservation)
   \<and> ReservationBins
        (snd (MeterRequest scenarioConfig scenarioChain 130
                (emptyStore\<lparr>ReservationBins := (\<lambda>k. 0)((''account'', 2) := 3000)\<rparr>)
                reservationRequest))
        (''account'', 4) = 1904
   \<and> ReservationBins
        (snd (MeterRequest scenarioConfig scenarioChain 130
                (emptyStore\<lparr>ReservationBins := (\<lambda>k. 0)((''account'', 2) := 3000)\<rparr>)
                reservationRequest))
        (''account'', 3)
      = ReservationBins
          (emptyStore\<lparr>ReservationBins := (\<lambda>k. 0)((''account'', 2) := 3000)\<rparr>)
          (''account'', 3)"
  using accepted_reservation_usage_bounded
          [where chain = scenarioChain and blockNumber = 1 and h = reservationRequest
             and r = scenarioReservation and m = scenarioConfig and now = 130
             and st = "emptyStore\<lparr>ReservationBins := (\<lambda>k. 0)((''account'', 2) := 3000)\<rparr>"]
  by (simp add: meterer_defs scenario_defs)

text \<open>
  C3 as the spec states it fails: the counter is incremented before the request is
  classified and a rejection does not take the increment back. Three requests of 3000
  bytes for bin 2 at a rate of 4096 leave 9000 bytes in the bin, more than \<open>2 * 4096\<close>;
  the third request is rejected.
\<close>

theorem rejected_requests_exceed_twice_the_rate_counterexample:
  "MeterRequests scenarioConfig scenarioChain emptyStore
     [(130, reservationRequest), (130, reservationRequest), (130, reservationRequest)]
     = emptyStore\<lparr>ReservationBins :=
                     (\<lambda>k. 0)((''account'', 2) := 9000, (''account'', 4) := 1904)\<rparr>
   \<and> unat (ReservationBins
              (MeterRequests scenarioConfig scenarioChain emptyStore
                 [(130, reservationRequest), (130, reservationRequest),
                  (130, reservationRequest)])
              (''account'', 2)) = 9000
   \<and> 2 * unat (DataRate scenarioReservation) = 8192
   \<and> \<not> unat (ReservationBins
                (MeterRequests scenarioConfig scenarioChain emptyStore
                   [(130, reservationRequest), (130, reservationRequest),
                    (130, reservationRequest)])
                (''account'', 2)) \<le> 2 * unat (DataRate scenarioReservation)
   \<and> fst (MeterRequest scenarioConfig scenarioChain 130
             (MeterRequests scenarioConfig scenarioChain emptyStore
                [(130, reservationRequest), (130, reservationRequest)])
             reservationRequest)
      = Inl (Wrap ''invalid reservation''
              (Wrap ''bin overflows'' (Msg ''bin has already been filled'')))"
  by (simp add: meterer_defs scenario_defs fun_upd_twist)

subsection \<open>The on-demand path\<close>

lemma AddOnDemandPayment_Inr:
  assumes "AddOnDemandPayment st h sz = (Inr (), st1)"
  shows "st1 = st\<lparr>OnDemand := OnDemand st @ [((AccountID h, CumulativePayment h), sz)]\<rparr>
         \<and> (AccountID h, CumulativePayment h) \<notin> fst ` set (OnDemand st)"
  using assms by (auto simp: AddOnDemandPayment_def Let_def split: if_splits)

lemma filter_absent_key:
  "k \<notin> fst ` set rs \<Longrightarrow> filter (\<lambda>r. fst r \<noteq> k) rs = rs"
  by (induction rs) auto

lemma RemoveOnDemandPayment_after_insert:
  assumes "AddOnDemandPayment st h sz = (Inr (), st1)"
    and "OnDemand st2 = OnDemand st1"
  shows "OnDemand (RemoveOnDemandPayment st2 (AccountID h) (CumulativePayment h)) = OnDemand st"
  using AddOnDemandPayment_Inr[OF assms(1)] assms(2)
  by (simp add: RemoveOnDemandPayment_def filter_absent_key)

text \<open>
  C5. Take an on-demand request that passed the quorum check and whose payment record
  was inserted, which needs that no record of that account and payment was stored. If
  \<open>ValidatePayment\<close> fails after the insert, the request is rejected and the store is
  the one right after the insert: the record stays. If \<open>ValidatePayment\<close> passes and the
  global counter of the second goes above \<open>GlobalBytesPerSecond\<close>, the request is
  rejected and the record is deleted: the store is the one before the request but for the
  global counter, which keeps the increment. Otherwise the request is accepted with the
  record and the increment in the store.
\<close>

theorem ServeOnDemandRequest_compensates_only_global_rate:
  assumes "ValidateQuorum h OnDemandQuorumNumbers = Inr ()"
    and "AddOnDemandPayment st h (BlobSizeCharged m (DataLength h)) = (Inr (), st_ins)"
  shows "((AccountID h, CumulativePayment h), BlobSizeCharged m (DataLength h))
           \<in> set (OnDemand st_ins)
         \<and> (AccountID h, CumulativePayment h) \<notin> fst ` set (OnDemand st)
         \<and> (\<forall>e. ValidatePayment m st_ins h d = Inl e \<longrightarrow>
               ServeOnDemandRequest m now st h d
                 = (Inl (wrap ''invalid on-demand payment'' e), st_ins))
         \<and> (ValidatePayment m st_ins h d = Inr ()
              \<and> GlobalBins st now + ucast (BlobSizeCharged m (DataLength h))
                   > GlobalBytesPerSecond m \<longrightarrow>
               ServeOnDemandRequest m now st h d
                 = (Inl (Msg ''failed global rate limiting''),
                    st\<lparr>GlobalBins := (GlobalBins st)
                          (now := GlobalBins st now
                                    + ucast (BlobSizeCharged m (DataLength h)))\<rparr>))
         \<and> (ValidatePayment m st_ins h d = Inr ()
              \<and> GlobalBins st now + ucast (BlobSizeCharged m (DataLength h))
                   \<le> GlobalBytesPerSecond m \<longrightarrow>
               ServeOnDemandRequest m now st h d
                 = (Inr (),
                    st_ins\<lparr>GlobalBins := (GlobalBins st)
                          (now := GlobalBins st now
                                    + ucast (BlobSizeCharged m (DataLength h)))\<rparr>))"
proof -
  note ins = AddOnDemandPayment_Inr[OF assms(2)]
  have g: "GlobalBins st_ins = GlobalBins st" using ins by simp
  have a: "((AccountID h, CumulativePayment h), BlobSizeCharged m (DataLength h))
           \<in> set (OnDemand st_ins)"
    using ins by simp
  have b: "ServeOnDemandRequest m now st h d
             = (Inl (wrap ''invalid on-demand payment'' e), st_ins)"
    if "ValidatePayment m st_ins h d = Inl e" for e
    using that assms by (simp add: ServeOnDemandRequest_def Let_def)
  have c: "ServeOnDemandRequest m now st h d
                 = (Inl (Msg ''failed global rate limiting''),
                    st\<lparr>GlobalBins := (GlobalBins st)
                          (now := GlobalBins st now
                                    + ucast (BlobSizeCharged m (DataLength h)))\<rparr>)"
    if "ValidatePayment m st_ins h d = Inr ()"
      "GlobalBins st now + ucast (BlobSizeCharged m (DataLength h)) > GlobalBytesPerSecond m"
  proof -
    have "OnDemand (RemoveOnDemandPayment st_ins (AccountID h) (CumulativePayment h)) = OnDemand st"
      using RemoveOnDemandPayment_after_insert[OF assms(2) refl] .
    then show ?thesis
      using that assms ins g
      by (simp add: ServeOnDemandRequest_def Let_def IncrementGlobalBinUsage_def
            UpdateGlobalBin_def RemoveOnDemandPayment_def)
  qed
  have d: "ServeOnDemandRequest m now st h d
                 = (Inr (),
                    st_ins\<lparr>GlobalBins := (GlobalBins st)
                          (now := GlobalBins st now
                                    + ucast (BlobSizeCharged m (DataLength h)))\<rparr>)"
    if "ValidatePayment m st_ins h d = Inr ()"
      "GlobalBins st now + ucast (BlobSizeCharged m (DataLength h)) \<le> GlobalBytesPerSecond m"
    using that assms g
    by (simp add: ServeOnDemandRequest_def Let_def IncrementGlobalBinUsage_def
          UpdateGlobalBin_def)
  from a b c d ins show ?thesis by blast
qed


text \<open>A payment of 100 for 2048 bytes fails the validation and its record stays; a
  payment of 200 under a global rate of 2047 bytes per second is rejected with its record
  deleted; under the scenario's rate it is accepted.\<close>

theorem ServeOnDemandRequest_compensates_only_global_rate_witness:
  "ValidateQuorum onDemandRequest OnDemandQuorumNumbers = Inr ()
   \<and> AddOnDemandPayment emptyStore (onDemandRequest\<lparr>CumulativePayment := 100\<rparr>)
         (BlobSizeCharged scenarioConfig 2048)
       = (Inr (), emptyStore\<lparr>OnDemand := [((''account'', 100), 2048)]\<rparr>)
   \<and> ValidatePayment scenarioConfig (emptyStore\<lparr>OnDemand := [((''account'', 100), 2048)]\<rparr>)
         (onDemandRequest\<lparr>CumulativePayment := 100\<rparr>) scenarioDeposit
       = Inl (Msg ''insufficient cumulative payment increment'')
   \<and> ServeOnDemandRequest scenarioConfig 130 emptyStore
         (onDemandRequest\<lparr>CumulativePayment := 100\<rparr>) scenarioDeposit
       = (Inl (Wrap ''invalid on-demand payment''
                (Msg ''insufficient cumulative payment increment'')),
          emptyStore\<lparr>OnDemand := [((''account'', 100), 2048)]\<rparr>)
   \<and> AddOnDemandPayment emptyStore onDemandRequest (BlobSizeCharged scenarioConfig 2048)
       = (Inr (), emptyStore\<lparr>OnDemand := [((''account'', 200), 2048)]\<rparr>)
   \<and> ValidatePayment (scenarioConfig\<lparr>GlobalBytesPerSecond := 2047\<rparr>)
         (emptyStore\<lparr>OnDemand := [((''account'', 200), 2048)]\<rparr>)
         onDemandRequest scenarioDeposit = Inr ()
   \<and> ServeOnDemandRequest (scenarioConfig\<lparr>GlobalBytesPerSecond := 2047\<rparr>) 130 emptyStore
         onDemandRequest scenarioDeposit
       = (Inl (Msg ''failed global rate limiting''),
          emptyStore\<lparr>GlobalBins := (\<lambda>k. 0)(130 := 2048)\<rparr>)
   \<and> ServeOnDemandRequest scenarioConfig 130 emptyStore onDemandRequest scenarioDeposit
       = (Inr (),
          emptyStore\<lparr>GlobalBins := (\<lambda>k. 0)(130 := 2048),
                      OnDemand := [((''account'', 200), 2048)]\<rparr>)"
  using ServeOnDemandRequest_compensates_only_global_rate
          [where h = "onDemandRequest\<lparr>CumulativePayment := 100\<rparr>" and st = emptyStore
             and m = scenarioConfig and now = 130 and d = scenarioDeposit
             and st_ins = "emptyStore\<lparr>OnDemand := [((''account'', 100), 2048)]\<rparr>"]
        ServeOnDemandRequest_compensates_only_global_rate
          [where h = onDemandRequest and st = emptyStore
             and m = "scenarioConfig\<lparr>GlobalBytesPerSecond := 2047\<rparr>" and now = 130
             and d = scenarioDeposit
             and st_ins = "emptyStore\<lparr>OnDemand := [((''account'', 200), 2048)]\<rparr>"]
        ServeOnDemandRequest_compensates_only_global_rate
          [where h = onDemandRequest and st = emptyStore
             and m = scenarioConfig and now = 130 and d = scenarioDeposit
             and st_ins = "emptyStore\<lparr>OnDemand := [((''account'', 200), 2048)]\<rparr>"]
  by (simp add: meterer_defs scenario_defs)

subsection \<open>The neighbours of a payment and the charge\<close>







text \<open>The quotient rounded up, on the natural numbers; the charge is below \<open>2 ^ 32\<close>
  since it is at most the 32-bit product.\<close>

lemma div_mult_add_less:
  fixes b k x :: nat
  assumes "x < b"
  shows "(b * k + x) div b = k"
  using assms by simp

lemma ceil_div_nat:
  fixes a b :: nat
  assumes "0 < b"
  shows "(a + b - 1) div b = a div b + (if a mod b = 0 then 0 else 1)"
proof (cases "a mod b = 0")
  case True
  then obtain k where k: "a = b * k" by (auto simp: mod_eq_0_iff_dvd dvd_def)
  have "b - 1 < b" using assms by simp
  then have "(b * k + (b - 1)) div b = k" by (rule div_mult_add_less)
  moreover have "a + b - 1 = b * k + (b - 1)" using assms k by simp
  moreover have "a div b = k" using assms k by simp
  ultimately show ?thesis using True by presburger
next
  case False
  define r where "r = a mod b"
  define k where "k = a div b"
  have a: "a = b * k + r" by (simp add: r_def k_def)
  have r: "0 < r" "r < b" using False assms by (simp_all add: r_def)
  have "r - 1 < b" using r by simp
  then have "(b * (k + 1) + (r - 1)) div b = k + 1" by (rule div_mult_add_less)
  moreover have "a + b - 1 = b * (k + 1) + (r - 1)" using a r by simp
  ultimately show ?thesis using False by (simp add: k_def)
qed

lemma ceil_div_le_self:
  fixes a b :: nat
  assumes "0 < b"
  shows "(a + b - 1) div b \<le> a"
proof (cases "a = 0")
  case True
  then show ?thesis using assms by simp
next
  case False
  have "a + b - 1 \<le> a * b"
  proof -
    obtain a' where a': "a = Suc a'" using False by (cases a) auto
    obtain b' where b': "b = Suc b'" using assms by (cases b) auto
    show ?thesis by (simp add: a' b')
  qed
  then have "(a + b - 1) div b \<le> (a * b) div b" by (rule div_le_mono)
  then show ?thesis using assms by simp
qed

lemma RoundUpDivide_unat:
  assumes "RoundUpDivide a b = Inr c"
  shows "b \<noteq> 0 \<and> unat c = (unat a + unat b - 1) div unat b"
proof -
  have b0: "b \<noteq> 0" using assms by (auto simp: RoundUpDivide_def split: if_splits)
  then have bpos: "0 < unat b" by (simp add: unat_gt_0)
  define d :: u64 where "d = (if a mod b = 0 then 0 else 1)"
  have c: "c = a div b + d"
    using assms b0 by (simp add: RoundUpDivide_def d_def)
  have m: "(a mod b = 0) = (unat a mod unat b = 0)"
    by (metis unat_mod unat_eq_zero)
  have d: "unat d = (if unat a mod unat b = 0 then 0 else 1)"
    by (simp add: d_def m)
  have ceil: "(unat a + unat b - 1) div unat b = unat (a div b) + unat d"
    using ceil_div_nat[OF bpos, of "unat a"] d by (simp add: unat_div)
  have "(unat a + unat b - 1) div unat b \<le> unat a" using bpos by (rule ceil_div_le_self)
  moreover have "unat a < 2 ^ 64" using unsigned_less[of a, where 'a=nat] by simp
  ultimately have "unat (a div b) + unat d < 2 ^ LENGTH(64)" using ceil by simp
  then have "unat (a div b + d) = unat (a div b) + unat d"
    by (simp only: unat_add_lem)
  with b0 c ceil show ?thesis by simp
qed

lemma ucast_u32_u64_eq_0:
  fixes x :: u32
  shows "((ucast x :: u64) = 0) = (x = 0)"
  by (metis unat_ucast_u32_u64 unat_eq_zero)

lemma PaymentCharged_total:
  "MinChargeableSize m \<noteq> 0 \<Longrightarrow> \<exists>c. PaymentCharged m l = Inr c"
  by (simp add: PaymentCharged_def RoundUpDivide_def ucast_u32_u64_eq_0)

lemma PaymentCharged_unat:
  assumes "PaymentCharged m l = Inr c"
  shows "MinChargeableSize m \<noteq> 0
         \<and> unat c = ((unat (max l (MinChargeableSize m)) * unat (PricePerChargeable m)) mod 2 ^ 32
                       + unat (MinChargeableSize m) - 1) div unat (MinChargeableSize m)"
  using RoundUpDivide_unat[OF assms[unfolded PaymentCharged_def]]
  by (simp add: ucast_u32_u64_eq_0 unat_ucast_u32_u64 BlobSizeCharged_def unat_word_ariths)








subsection \<open>The bin index on the on-demand path\<close>

lemma AddOnDemandPayment_BinIndex:
  "AddOnDemandPayment st (h\<lparr>BinIndex := b\<rparr>) sz = AddOnDemandPayment st h sz"
  by (simp add: AddOnDemandPayment_def)

lemma ValidatePayment_BinIndex:
  "ValidatePayment m st (h\<lparr>BinIndex := b\<rparr>) d = ValidatePayment m st h d"
  by (simp add: ValidatePayment_def cong: sum.case_cong prod.case_cong if_cong)

lemma ValidateQuorum_BinIndex:
  "ValidateQuorum (h\<lparr>BinIndex := b\<rparr>) a = ValidateQuorum h a"
  by (simp add: ValidateQuorum_def)

lemma ServeOnDemandRequest_BinIndex:
  "ServeOnDemandRequest m now st (h\<lparr>BinIndex := b\<rparr>) d = ServeOnDemandRequest m now st h d"
  by (simp add: ServeOnDemandRequest_def AddOnDemandPayment_BinIndex ValidatePayment_BinIndex
        ValidateQuorum_BinIndex cong: sum.case_cong prod.case_cong if_cong)

text \<open>
  C9, as amended. \<open>ServeOnDemandRequest\<close> does not read the bin index of the request:
  with any other bin index its result and the store it leaves are the same, and so are
  those of \<open>MeterRequest\<close> on an on-demand request. \<open>ValidateGlobalBinIndex\<close>, which no
  function calls, accepts exactly the current and the previous second, cut to 32 bits,
  and returns the current one.
\<close>

theorem on_demand_path_ignores_bin_index:
  "ServeOnDemandRequest m now st (h\<lparr>BinIndex := b\<rparr>) d = ServeOnDemandRequest m now st h d
   \<and> (CumulativePayment h \<noteq> 0 \<longrightarrow>
         MeterRequest m chain now st (h\<lparr>BinIndex := b\<rparr>) = MeterRequest m chain now st h)
   \<and> ValidateGlobalBinIndex now h
       = (if BinIndex h = ucast now \<or> BinIndex h = ucast now - 1 then Inr (ucast now)
          else Inl (Msg ''invalid bin index for on-demand request''))"
  by (simp add: MeterRequest_def ServeOnDemandRequest_BinIndex ValidateGlobalBinIndex_def Let_def
        cong: sum.case_cong prod.case_cong if_cong)

text \<open>At second 130 the scenario's on-demand request is accepted with bin index 0 as
  with bin index 130; \<open>ValidateGlobalBinIndex\<close> takes 130 and 129 and refuses 128.\<close>

theorem on_demand_path_ignores_bin_index_witness:
  "CumulativePayment onDemandRequest \<noteq> 0
   \<and> MeterRequest scenarioConfig scenarioChain 130 emptyStore (onDemandRequest\<lparr>BinIndex := 130\<rparr>)
       = MeterRequest scenarioConfig scenarioChain 130 emptyStore onDemandRequest
   \<and> fst (MeterRequest scenarioConfig scenarioChain 130 emptyStore onDemandRequest) = Inr ()
   \<and> ValidateGlobalBinIndex 130 (onDemandRequest\<lparr>BinIndex := 130\<rparr>) = Inr 130
   \<and> ValidateGlobalBinIndex 130 (onDemandRequest\<lparr>BinIndex := 129\<rparr>) = Inr 130
   \<and> ValidateGlobalBinIndex 130 (onDemandRequest\<lparr>BinIndex := 128\<rparr>)
       = Inl (Msg ''invalid bin index for on-demand request'')"
  using on_demand_path_ignores_bin_index
          [where h = onDemandRequest and b = 130 and m = scenarioConfig and now = 130
             and st = emptyStore and chain = scenarioChain and d = scenarioDeposit]
        on_demand_path_ignores_bin_index
          [where h = "onDemandRequest\<lparr>BinIndex := 130\<rparr>" and now = 130]
        on_demand_path_ignores_bin_index
          [where h = "onDemandRequest\<lparr>BinIndex := 129\<rparr>" and now = 130]
        on_demand_path_ignores_bin_index
          [where h = "onDemandRequest\<lparr>BinIndex := 128\<rparr>" and now = 130]
  by (simp add: meterer_defs scenario_defs)

text \<open>
  C9 as the spec states it fails: at second 130 an on-demand request with bin index 0,
  which is neither 130 nor 129 and which \<open>ValidateGlobalBinIndex\<close> would refuse, is
  accepted by \<open>MeterRequest\<close>.
\<close>

theorem on_demand_bin_index_unchecked_counterexample:
  "BinIndex onDemandRequest \<noteq> ucast (130 :: u64)
   \<and> BinIndex onDemandRequest \<noteq> ucast (130 :: u64) - 1
   \<and> ValidateGlobalBinIndex 130 onDemandRequest
       = Inl (Msg ''invalid bin index for on-demand request'')
   \<and> MeterRequest scenarioConfig scenarioChain 130 emptyStore onDemandRequest
       = (Inr (), emptyStore\<lparr>GlobalBins := (\<lambda>k. 0)(130 := 2048),
                             OnDemand := [((''account'', 200), 2048)]\<rparr>)"
  by (simp add: meterer_defs scenario_defs ValidateGlobalBinIndex_def)

subsection \<open>The charge\<close>

lemma le_ceil_div_mult:
  fixes a b :: nat
  assumes "0 < b"
  shows "a \<le> ((a + b - 1) div b) * b"
proof -
  have "(a + b - 1) mod b < b" using assms by simp
  moreover have "a + b - 1 = ((a + b - 1) div b) * b + (a + b - 1) mod b" by simp
  ultimately show ?thesis using assms by linarith
qed

lemma ceil_div_le_if:
  fixes a b q :: nat
  assumes "0 < b" "a \<le> q * b"
  shows "(a + b - 1) div b \<le> q"
proof -
  have "a + b - 1 \<le> b * q + (b - 1)" using assms by (simp add: mult.commute)
  then have "(a + b - 1) div b \<le> (b * q + (b - 1)) div b" by (rule div_le_mono)
  moreover have "b - 1 < b" using assms(1) by simp
  then have "(b * q + (b - 1)) div b = q" by (rule div_mult_add_less)
  ultimately show ?thesis by simp
qed

lemma ceil_div_least:
  assumes "0 < b"
  shows "a \<le> ceil_div a b * b \<and> (\<forall>q. a \<le> q * b \<longrightarrow> ceil_div a b \<le> q)"
  using le_ceil_div_mult[OF assms, of a] ceil_div_le_if[OF assms, of a]
  by (simp add: ceil_div_def)

lemma PaymentCharged_exact_without_wrap:
  assumes "MinChargeableSize m \<noteq> 0"
    and "unat (max l (MinChargeableSize m)) * unat (PricePerChargeable m) < 2 ^ 32"
  shows "\<exists>c. PaymentCharged m l = Inr c
            \<and> unat c = (unat (max l (MinChargeableSize m)) * unat (PricePerChargeable m)
                          + unat (MinChargeableSize m) - 1) div unat (MinChargeableSize m)"
proof -
  obtain c where c: "PaymentCharged m l = Inr c"
    using PaymentCharged_total[OF assms(1)] by blast
  from PaymentCharged_unat[OF c] assms(2) c show ?thesis by simp
qed




text \<open>
  C8 on the code. With a minimum chargeable size of 1024 and a price of 4194304 the
  product for the minimum size is \<open>2 ^ 32\<close>, which is 0 in 32 bits: 1024 bytes and 1 byte
  are charged 0 each and 1025 bytes are charged 4096, so the two parts cost less than the
  whole by more than one unit.
\<close>

theorem PaymentCharged_split_undercharges:
  "PaymentCharged (scenarioConfig\<lparr>PricePerChargeable := 4194304\<rparr>) 1024 = Inr 0
   \<and> PaymentCharged (scenarioConfig\<lparr>PricePerChargeable := 4194304\<rparr>) 1 = Inr 0
   \<and> PaymentCharged (scenarioConfig\<lparr>PricePerChargeable := 4194304\<rparr>) (1024 + 1) = Inr 4096
   \<and> \<not> unat (4096 :: u64) - 1 \<le> unat (0 :: u64) + unat (0 :: u64)"
  by (simp add: meterer_defs scenario_defs)


text \<open>Where no product wraps around, the charge of the whole is at most the sum of the
  charges of the parts.\<close>

lemma ceil_div_subadditive:
  fixes a b c d :: nat
  assumes "0 < d" "c \<le> a + b"
  shows "(c + d - 1) div d \<le> (a + d - 1) div d + (b + d - 1) div d"
proof -
  have "a + b \<le> ((a + d - 1) div d) * d + ((b + d - 1) div d) * d"
    using le_ceil_div_mult[OF assms(1), of a] le_ceil_div_mult[OF assms(1), of b] by linarith
  then have "c \<le> ((a + d - 1) div d + (b + d - 1) div d) * d"
    using assms(2) by (simp add: add_mult_distrib)
  with assms(1) show ?thesis by (rule ceil_div_le_if)
qed

lemma unat_max: "unat (max a b) = max (unat a) (unat b)" for a b :: "'a::len word"
  by (simp add: max_def word_le_nat_alt)

lemma PaymentCharged_split_without_wrap:
  assumes "MinChargeableSize m \<noteq> 0"
    and "unat l1 + unat l2 < 2 ^ 32"
    and "(unat (max l1 (MinChargeableSize m)) + unat (max l2 (MinChargeableSize m)))
           * unat (PricePerChargeable m) < 2 ^ 32"
  shows "\<exists>c1 c2 c12. PaymentCharged m l1 = Inr c1 \<and> PaymentCharged m l2 = Inr c2
           \<and> PaymentCharged m (l1 + l2) = Inr c12 \<and> unat c12 \<le> unat c1 + unat c2"
proof -
  let ?M = "unat (MinChargeableSize m)" and ?P = "unat (PricePerChargeable m)"
  let ?a = "unat (max l1 (MinChargeableSize m))" and ?b = "unat (max l2 (MinChargeableSize m))"
  let ?c = "unat (max (l1 + l2) (MinChargeableSize m))"
  have M: "0 < ?M" using assms(1) by (simp add: unat_gt_0)
  have "unat l1 + unat l2 < 2 ^ LENGTH(32)" using assms(2) by simp
  then have sum: "unat (l1 + l2) = unat l1 + unat l2" by (simp only: unat_add_lem)
  have c: "?c \<le> ?a + ?b" unfolding unat_max sum by linarith
  then have cP: "?c * ?P \<le> (?a + ?b) * ?P" by (rule mult_le_mono1)
  have "?a * ?P \<le> (?a + ?b) * ?P" by (rule mult_le_mono1) simp
  then have aP: "?a * ?P < 2 ^ 32" using assms(3) by (rule le_less_trans)
  have "?b * ?P \<le> (?a + ?b) * ?P" by (rule mult_le_mono1) simp
  then have bP: "?b * ?P < 2 ^ 32" using assms(3) by (rule le_less_trans)
  from cP have cP': "?c * ?P < 2 ^ 32" using assms(3) by (rule le_less_trans)
  obtain c1 where c1: "PaymentCharged m l1 = Inr c1"
    "unat c1 = (?a * ?P + ?M - 1) div ?M"
    using PaymentCharged_exact_without_wrap[OF assms(1) aP] by blast
  obtain c2 where c2: "PaymentCharged m l2 = Inr c2"
    "unat c2 = (?b * ?P + ?M - 1) div ?M"
    using PaymentCharged_exact_without_wrap[OF assms(1) bP] by blast
  obtain c12 where c12: "PaymentCharged m (l1 + l2) = Inr c12"
    "unat c12 = (?c * ?P + ?M - 1) div ?M"
    using PaymentCharged_exact_without_wrap[OF assms(1) cP'] by blast
  have "?c * ?P \<le> ?a * ?P + ?b * ?P" using cP by (simp add: add_mult_distrib)
  with M have "(?c * ?P + ?M - 1) div ?M \<le> (?a * ?P + ?M - 1) div ?M + (?b * ?P + ?M - 1) div ?M"
    by (rule ceil_div_subadditive)
  with c1 c2 c12 show ?thesis by simp
qed

end
